theory Spec2Isabelle
  imports Complex_Main
begin

section \<open>Errors and Python values\<close>

text \<open>
  Every exception the code of \<^verbatim>\<open>main.py\<close> can raise, directly or through the Django
  calls it makes, is a value of \<open>error\<close>; a computation that may raise returns
  \<open>error + 'a\<close>, with \<open>Inl\<close> for the exception. \<open>ProtectedError\<close> is Django's
  subclass of \<open>IntegrityError\<close> raised for \<^verbatim>\<open>on_delete=models.PROTECT\<close>.
\<close>

datatype error =
    ValidationError
  | DoesNotExist
  | AttributeError
  | FieldError
  | ProtectedError
  | InvalidOperation
  | DivisionByZero
  | TypeError
  | ValueError

definition bind_err :: "error + 'a \<Rightarrow> ('a \<Rightarrow> error + 'b) \<Rightarrow> error + 'b" where
  "bind_err m f = (case m of Inl e \<Rightarrow> Inl e | Inr x \<Rightarrow> f x)"

text \<open>
  A Python \<^verbatim>\<open>Decimal\<close>: a finite value (modelled by the rational it denotes), an
  infinity with its sign (\<open>True\<close> for negative), or a quiet NaN. The rounding of the
  decimal context (28 significant digits) and the sign of zero are not modelled; no
  result below depends on decimal arithmetic being carried out.
\<close>

datatype decimal = Finite rat | Infinity bool | NaN

text \<open>Ordering comparisons of \<^verbatim>\<open>Decimal\<close> signal \<^verbatim>\<open>InvalidOperation\<close> on a NaN.\<close>

fun dec_lt :: "decimal \<Rightarrow> decimal \<Rightarrow> error + bool" where
  "dec_lt NaN b = Inl InvalidOperation"
| "dec_lt (Finite x) NaN = Inl InvalidOperation"
| "dec_lt (Infinity n) NaN = Inl InvalidOperation"
| "dec_lt (Finite x) (Finite y) = Inr (x < y)"
| "dec_lt (Finite x) (Infinity n) = Inr (\<not> n)"
| "dec_lt (Infinity n) (Finite y) = Inr n"
| "dec_lt (Infinity n) (Infinity m) = Inr (n \<and> \<not> m)"

definition dec_gt :: "decimal \<Rightarrow> decimal \<Rightarrow> error + bool" where
  "dec_gt a b = dec_lt b a"

fun dec_div :: "decimal \<Rightarrow> decimal \<Rightarrow> error + decimal" where
  "dec_div NaN b = Inr NaN"
| "dec_div (Finite x) NaN = Inr NaN"
| "dec_div (Infinity n) NaN = Inr NaN"
| "dec_div (Infinity n) (Infinity m) = Inl InvalidOperation"
| "dec_div (Infinity n) (Finite y) = Inr (Infinity (n \<noteq> (y < 0)))"
| "dec_div (Finite x) (Infinity m) = Inr (Finite 0)"
| "dec_div (Finite x) (Finite y) =
     (if y = 0 then (if x = 0 then Inl InvalidOperation else Inl DivisionByZero)
      else Inr (Finite (x / y)))"

fun dec_mul :: "decimal \<Rightarrow> decimal \<Rightarrow> error + decimal" where
  "dec_mul NaN b = Inr NaN"
| "dec_mul (Finite x) NaN = Inr NaN"
| "dec_mul (Infinity n) NaN = Inr NaN"
| "dec_mul (Infinity n) (Infinity m) = Inr (Infinity (n \<noteq> m))"
| "dec_mul (Infinity n) (Finite y) =
     (if y = 0 then Inl InvalidOperation else Inr (Infinity (n \<noteq> (y < 0))))"
| "dec_mul (Finite x) (Infinity m) =
     (if x = 0 then Inl InvalidOperation else Inr (Infinity (m \<noteq> (x < 0))))"
| "dec_mul (Finite x) (Finite y) = Inr (Finite (x * y))"

fun dec_sub :: "decimal \<Rightarrow> decimal \<Rightarrow> error + decimal" where
  "dec_sub NaN b = Inr NaN"
| "dec_sub (Finite x) NaN = Inr NaN"
| "dec_sub (Infinity n) NaN = Inr NaN"
| "dec_sub (Infinity n) (Infinity m) =
     (if n = m then Inl InvalidOperation else Inr (Infinity n))"
| "dec_sub (Infinity n) (Finite y) = Inr (Infinity n)"
| "dec_sub (Finite x) (Infinity m) = Inr (Infinity (\<not> m))"
| "dec_sub (Finite x) (Finite y) = Inr (Finite (x - y))"

text \<open>
  The Python values that the code stores in attributes or passes to queries, and the
  operators \<^verbatim>\<open>/\<close>, \<^verbatim>\<open>*\<close> and \<^verbatim>\<open>-\<close> as the source applies them: to a \<^verbatim>\<open>Decimal\<close> on the left
  and a \<^verbatim>\<open>Decimal\<close> or an \<^verbatim>\<open>int\<close> (a \<^verbatim>\<open>bool\<close> is an \<^verbatim>\<open>int\<close>) on the right, with
  \<^verbatim>\<open>TypeError\<close> for \<^verbatim>\<open>None\<close> and \<^verbatim>\<open>str\<close> as in Python. A left operand that is an \<^verbatim>\<open>int\<close>, for
  which Python computes with \<^verbatim>\<open>int\<close> or \<^verbatim>\<open>float\<close>, is outside the model and reported as
  \<^verbatim>\<open>TypeError\<close> too; the program never produces one.
\<close>

datatype pyval = PyNone | PyBool bool | PyInt int | PyStr string | PyDecimal decimal

fun as_decimal :: "pyval \<Rightarrow> error + decimal" where
  "as_decimal (PyDecimal d) = Inr d"
| "as_decimal (PyInt i) = Inr (Finite (of_int i))"
| "as_decimal (PyBool b) = Inr (Finite (if b then 1 else 0))"
| "as_decimal PyNone = Inl TypeError"
| "as_decimal (PyStr s) = Inl TypeError"

fun py_binop ::
  "(decimal \<Rightarrow> decimal \<Rightarrow> error + decimal) \<Rightarrow> pyval \<Rightarrow> pyval \<Rightarrow> error + pyval" where
  "py_binop f (PyDecimal x) b =
     bind_err (as_decimal b) (\<lambda>y. bind_err (f x y) (\<lambda>r. Inr (PyDecimal r)))"
| "py_binop f a b = Inl TypeError"

section \<open>The stored rows\<close>

text \<open>
  One row type per model class, with the columns Django derives from the fields the
  class declares: the implicit primary key \<^verbatim>\<open>id\<close>, and \<^verbatim>\<open>\<dots>_id\<close> for a foreign key.
  \<^verbatim>\<open>Section.parent\<close> is declared \<^verbatim>\<open>null=True\<close>, hence the option. Only \<^verbatim>\<open>Expenditure\<close>
  declares \<^verbatim>\<open>count\<close> and \<^verbatim>\<open>price\<close>.
\<close>

record Building_row =
  b_id :: int
  b_name :: string

record Section_row =
  s_id :: int
  s_building_id :: int
  s_parent_id :: "int option"

record Expenditure_row =
  e_id :: int
  e_section_id :: int
  e_name :: string
  e_type :: string
  e_count :: rat
  e_price :: rat

record db =
  buildings :: "Building_row list"
  sections :: "Section_row list"
  expenditures :: "Expenditure_row list"

section \<open>Section instances and \<^verbatim>\<open>Section.save\<close>\<close>

text \<open>
  A \<^verbatim>\<open>Section\<close> instance in memory: the values of its fields (\<^verbatim>\<open>id\<close> is \<^verbatim>\<open>None\<close> until
  the instance is saved) and the further attributes assigned to the instance, which
  Python keeps in the instance dictionary.
\<close>

record Section_obj =
  obj_id :: "int option"
  obj_building_id :: int
  obj_parent_id :: "int option"
  obj_dict :: "(string \<times> pyval) list"

definition Section_of_row :: "Section_row \<Rightarrow> Section_obj" where
  "Section_of_row r =
     \<lparr>obj_id = Some (s_id r), obj_building_id = s_building_id r,
      obj_parent_id = s_parent_id r, obj_dict = []\<rparr>"

text \<open>\<^verbatim>\<open>Section.objects.get(pk=\<dots>)\<close>: the instance of the row with that key.\<close>

definition Section_objects_get :: "db \<Rightarrow> int \<Rightarrow> error + Section_obj" where
  "Section_objects_get d pk =
     (case find (\<lambda>r. s_id r = pk) (sections d) of
        None \<Rightarrow> Inl DoesNotExist
      | Some r \<Rightarrow> Inr (Section_of_row r))"

text \<open>
  The attribute \<^verbatim>\<open>parent\<close> of an instance: Django's descriptor for the foreign key
  gives \<^verbatim>\<open>None\<close> when \<^verbatim>\<open>parent_id\<close> is \<^verbatim>\<open>None\<close> and otherwise loads the referenced row.
\<close>

definition Section_parent :: "db \<Rightarrow> Section_obj \<Rightarrow> error + Section_obj option" where
  "Section_parent d self =
     (case obj_parent_id self of
        None \<Rightarrow> Inr None
      | Some pid \<Rightarrow> bind_err (Section_objects_get d pid) (\<lambda>p. Inr (Some p)))"

text \<open>Python's truth value of \<^verbatim>\<open>self.id\<close>: \<^verbatim>\<open>None\<close> and \<^verbatim>\<open>0\<close> are false.\<close>

definition truthy_id :: "int option \<Rightarrow> bool" where
  "truthy_id i = (case i of None \<Rightarrow> False | Some n \<Rightarrow> n \<noteq> 0)"

definition fresh_id :: "int list \<Rightarrow> int" where
  "fresh_id ids = fold max ids 0 + 1"

definition row_of_Section :: "int \<Rightarrow> Section_obj \<Rightarrow> Section_row" where
  "row_of_Section i self =
     \<lparr>s_id = i, s_building_id = obj_building_id self, s_parent_id = obj_parent_id self\<rparr>"

text \<open>
  \<^verbatim>\<open>super().save(\<dots>)\<close>, the save of \<^verbatim>\<open>models.Model\<close>, as the write of the instance's row:
  an instance without a key is inserted under a fresh key, which the instance receives;
  an instance with a key replaces the row of that key, or is inserted under it when
  there is none. Only the declared fields reach the row. The checks of the database
  engine on the inserted row (foreign keys) are not part of the model.
\<close>

definition Model_save :: "db \<Rightarrow> Section_obj \<Rightarrow> (error + Section_obj) \<times> db" where
  "Model_save d self =
     (case obj_id self of
        None \<Rightarrow>
          (let i = fresh_id (map s_id (sections d))
           in (Inr (self\<lparr>obj_id := Some i\<rparr>),
               d\<lparr>sections := sections d @ [row_of_Section i self]\<rparr>))
      | Some i \<Rightarrow>
          (if list_ex (\<lambda>r. s_id r = i) (sections d)
           then (Inr self,
                 d\<lparr>sections :=
                     map (\<lambda>r. if s_id r = i then row_of_Section i self else r) (sections d)\<rparr>)
           else (Inr self, d\<lparr>sections := sections d @ [row_of_Section i self]\<rparr>)))"

text \<open>
  \<^verbatim>\<open>Section.save\<close> (lines 23 to 26). The condition is Python's short-circuit \<^verbatim>\<open>and\<close>:
  \<^verbatim>\<open>self.parent\<close> is read only when \<^verbatim>\<open>self.id\<close> is false, and the parent's own \<^verbatim>\<open>parent\<close>
  only when \<^verbatim>\<open>self.parent\<close> is an instance (an instance is always true). The default of
  \<^verbatim>\<open>getattr\<close> covers \<^verbatim>\<open>AttributeError\<close> only, so a failed load propagates.
\<close>

definition Section_save :: "db \<Rightarrow> Section_obj \<Rightarrow> (error + Section_obj) \<times> db" where
  "Section_save d self =
     (if truthy_id (obj_id self) then Model_save d self
      else
        (case Section_parent d self of
           Inl e \<Rightarrow> (Inl e, d)
         | Inr None \<Rightarrow> Model_save d self
         | Inr (Some p) \<Rightarrow>
             (case Section_parent d p of
                Inl e \<Rightarrow> (Inl e, d)
              | Inr (Some g) \<Rightarrow> (Inl ValidationError, d)
              | Inr None \<Rightarrow> Model_save d self)))"

section \<open>\<^verbatim>\<open>update_with_discount\<close>\<close>

text \<open>
  Reading a data attribute of a \<^verbatim>\<open>Section\<close> instance: the value of one of the fields
  the class declares (\<^verbatim>\<open>pk\<close> is another name of \<^verbatim>\<open>id\<close>), else an entry of the instance
  dictionary, else Python raises \<^verbatim>\<open>AttributeError\<close>. The class \<^verbatim>\<open>Section\<close> (lines 15
  to 26) declares \<^verbatim>\<open>building\<close> and \<^verbatim>\<open>parent\<close> and nothing else. Assigning an attribute
  that is not a field stores it in the instance dictionary.
\<close>

definition py_of_key :: "int option \<Rightarrow> pyval" where
  "py_of_key k = (case k of None \<Rightarrow> PyNone | Some i \<Rightarrow> PyInt i)"

definition Section_getattr :: "Section_obj \<Rightarrow> string \<Rightarrow> error + pyval" where
  "Section_getattr self a =
     (if a = ''id'' then Inr (py_of_key (obj_id self))
      else if a = ''pk'' then Inr (py_of_key (obj_id self))
      else if a = ''building_id'' then Inr (PyInt (obj_building_id self))
      else if a = ''parent_id'' then Inr (py_of_key (obj_parent_id self))
      else (case map_of (obj_dict self) a of
              None \<Rightarrow> Inl AttributeError
            | Some v \<Rightarrow> Inr v))"

definition Section_setattr :: "Section_obj \<Rightarrow> string \<Rightarrow> pyval \<Rightarrow> Section_obj" where
  "Section_setattr self a v = self\<lparr>obj_dict := (a, v) # obj_dict self\<rparr>"

text \<open>
  Raising \<^verbatim>\<open>ValidationError\<close>. A \<^verbatim>\<open>raise\<close> of the class calls it with the arguments
  written, and with none when the class is written bare. The constructor of Django's
  \<^verbatim>\<open>ValidationError\<close> requires the argument \<^verbatim>\<open>message\<close>: with a message the validation
  error is raised (line 25), and without one the call of the constructor itself fails
  with \<^verbatim>\<open>TypeError\<close> (line 97, \<^verbatim>\<open>raise ValidationError\<close>).
\<close>

definition raise_ValidationError :: "string option \<Rightarrow> error" where
  "raise_ValidationError message =
     (case message of None \<Rightarrow> TypeError | Some msg \<Rightarrow> ValidationError)"

text \<open>The test \<^verbatim>\<open>discount < 0 or discount > 100\<close> of line 96, with Python's short circuit.\<close>

definition discount_out_of_range :: "decimal \<Rightarrow> error + bool" where
  "discount_out_of_range discount =
     bind_err (dec_lt discount (Finite 0))
       (\<lambda>below. if below then Inr True else dec_gt discount (Finite 100))"

text \<open>
  Lines 100 and 101 up to the assignment: both reads of \<^verbatim>\<open>section.price\<close>, the
  arithmetic, and the assignment of the new value to the instance.
\<close>

definition discounted :: "Section_obj \<Rightarrow> decimal \<Rightarrow> error + Section_obj" where
  "discounted section discount =
     bind_err (Section_getattr section ''price'') (\<lambda>price.
     bind_err (py_binop dec_div price (PyInt 100)) (\<lambda>hundredth.
     bind_err (py_binop dec_mul hundredth (PyDecimal discount)) (\<lambda>discount_amount.
     bind_err (Section_getattr section ''price'') (\<lambda>price'.
     bind_err (py_binop dec_sub price' discount_amount) (\<lambda>new_price.
     Inr (Section_setattr section ''price'' new_price))))))"

text \<open>
  \<^verbatim>\<open>update_with_discount\<close> (lines 92 to 102). The result pairs the outcome with the
  database after the call; an exception leaves the database as it was when raised.
\<close>

definition update_with_discount :: "db \<Rightarrow> int \<Rightarrow> decimal \<Rightarrow> (error + unit) \<times> db" where
  "update_with_discount d section_id discount =
     (case discount_out_of_range discount of
        Inl e \<Rightarrow> (Inl e, d)
      | Inr True \<Rightarrow> (Inl (raise_ValidationError None), d)
      | Inr False \<Rightarrow>
          (case bind_err (Section_objects_get d section_id)
                  (\<lambda>section. discounted section discount) of
             Inl e \<Rightarrow> (Inl e, d)
           | Inr section \<Rightarrow>
               (case Section_save d section of
                  (Inl e, d') \<Rightarrow> (Inl e, d')
                | (Inr saved, d') \<Rightarrow> (Inr (), d'))))"

section \<open>The declared models and Django's resolution of lookup names\<close>

text \<open>
  The three model classes and the fields each declares (lines 8 to 46), with the
  implicit primary key \<^verbatim>\<open>id\<close>. A foreign key names its target model.
\<close>

datatype model = Building | Section | Expenditure

datatype field = Column | ForeignKey model

fun local_fields :: "model \<Rightarrow> (string \<times> field) list" where
  "local_fields Building = [(''id'', Column), (''name'', Column)]"
| "local_fields Section =
     [(''id'', Column), (''building'', ForeignKey Building), (''parent'', ForeignKey Section)]"
| "local_fields Expenditure =
     [(''id'', Column), (''section'', ForeignKey Section), (''name'', Column),
      (''type'', Column), (''count'', Column), (''price'', Column)]"

fun model_name :: "model \<Rightarrow> string" where
  "model_name Building = ''building''"
| "model_name Section = ''section''"
| "model_name Expenditure = ''expenditure''"

definition all_models :: "model list" where
  "all_models = [Building, Section, Expenditure]"

text \<open>
  What a name denotes on a model: a column of the model, a relation leading to a model,
  or an annotation of the query.
\<close>

datatype target = Col model string | Rel model | Ann string

text \<open>
  A declared field answers to its name; a foreign key also to \<^verbatim>\<open>name_id\<close>, its column.
\<close>

fun forward_field :: "model \<Rightarrow> (string \<times> field) list \<Rightarrow> string \<Rightarrow> target option" where
  "forward_field m [] n = None"
| "forward_field m ((f, Column) # fs) n =
     (if n = f then Some (Col m f) else forward_field m fs n)"
| "forward_field m ((f, ForeignKey t) # fs) n =
     (if n = f then Some (Rel t)
      else if n = f @ ''_id'' then Some (Col m (f @ ''_id''))
      else forward_field m fs n)"

text \<open>
  No foreign key of the source gives \<^verbatim>\<open>related_name\<close> or \<^verbatim>\<open>related_query_name\<close>, so
  the reverse of a foreign key is known on its target model under the lower-case name
  of the model that declares the key: \<^verbatim>\<open>section\<close> on \<^verbatim>\<open>Building\<close> (from
  \<^verbatim>\<open>Section.building\<close>), \<^verbatim>\<open>section\<close> on \<^verbatim>\<open>Section\<close> (from \<^verbatim>\<open>Section.parent\<close>) and
  \<^verbatim>\<open>expenditure\<close> on \<^verbatim>\<open>Section\<close> (from \<^verbatim>\<open>Expenditure.section\<close>).
\<close>

definition points_to :: "model \<Rightarrow> model \<Rightarrow> bool" where
  "points_to src m = list_ex (\<lambda>(f, k). k = ForeignKey m) (local_fields src)"

definition reverse_field :: "model \<Rightarrow> string \<Rightarrow> target option" where
  "reverse_field m n =
     map_option Rel (find (\<lambda>src. points_to src m \<and> model_name src = n) all_models)"

definition get_field :: "model \<Rightarrow> string \<Rightarrow> target option" where
  "get_field m n =
     (case forward_field m (local_fields m) n of
        Some t \<Rightarrow> Some t
      | None \<Rightarrow> reverse_field m n)"

text \<open>A lookup is split at each double underscore, as \<^verbatim>\<open>str.split('__')\<close> does.\<close>

fun split_sep :: "string \<Rightarrow> string \<Rightarrow> string list" where
  "split_sep acc [] = [rev acc]"
| "split_sep acc [c] = [rev (c # acc)]"
| "split_sep acc (c # e # cs) =
     (if c = CHR ''_'' \<and> e = CHR ''_'' then rev acc # split_sep [] cs
      else split_sep (c # acc) (e # cs))"

definition split_lookup :: "string \<Rightarrow> string list" where
  "split_lookup s = split_sep [] s"

text \<open>
  Django's \<^verbatim>\<open>Query.names_to_path\<close>: the names are followed from the model, a relation
  moving to the model at its far end. A first name that is not a field of the model is
  a \<^verbatim>\<open>FieldError\<close>; a later one is, too, when every name has to be a field
  (\<open>strict\<close>, the case of an \<^verbatim>\<open>F\<close> expression), and otherwise ends the path, the rest
  being a lookup such as \<^verbatim>\<open>isnull\<close>. The second argument is the last name resolved.
\<close>

fun names_to_path ::
  "bool \<Rightarrow> model \<Rightarrow> target option \<Rightarrow> string list \<Rightarrow> error + (target \<times> string list)" where
  "names_to_path strict m prev [] =
     (case prev of None \<Rightarrow> Inl FieldError | Some t \<Rightarrow> Inr (t, []))"
| "names_to_path strict m prev (n # ns) =
     (case get_field m (if n = ''pk'' then ''id'' else n) of
        None \<Rightarrow>
          (case prev of
             None \<Rightarrow> Inl FieldError
           | Some t \<Rightarrow> if strict then Inl FieldError else Inr (t, n # ns))
      | Some (Rel m') \<Rightarrow> names_to_path strict m' (Some (Rel m')) ns
      | Some t \<Rightarrow> if strict \<and> ns \<noteq> [] then Inl FieldError else Inr (t, ns))"

section \<open>Query expressions and query sets\<close>

text \<open>
  The expressions the source builds: \<^verbatim>\<open>F(name)\<close>, products and sums of expressions,
  and \<^verbatim>\<open>Sum(expression, filter=Q(lookup=value))\<close>, where the value of a \<^verbatim>\<open>Q\<close> is a
  Python value or \<^verbatim>\<open>OuterRef(name)\<close>.
\<close>

datatype rhs = Val pyval | OuterRef string

datatype q = Q string rhs

datatype expr = F string | Mul expr expr | Add expr expr | Sum expr "q option"

text \<open>The same after resolution: each name replaced by what it denotes.\<close>

datatype rq = RQ "string list" target string rhs

datatype rexpr =
    RRef "string list" target
  | RMul rexpr rexpr
  | RAdd rexpr rexpr
  | RSum rexpr "rq option"

definition builtin_lookups :: "string list" where
  "builtin_lookups =
     [''exact'', ''iexact'', ''contains'', ''icontains'', ''in'', ''gt'', ''gte'', ''lt'',
      ''lte'', ''startswith'', ''istartswith'', ''endswith'', ''iendswith'', ''range'',
      ''isnull'', ''regex'', ''iregex'']"

text \<open>
  \<^verbatim>\<open>Query.resolve_ref\<close>, for \<^verbatim>\<open>F(name)\<close>: an annotation of that name, else a path of
  fields, every name of which has to resolve.
\<close>

definition resolve_ref :: "model \<Rightarrow> string list \<Rightarrow> string \<Rightarrow> error + rexpr" where
  "resolve_ref m anns name =
     (if name \<in> set anns then Inr (RRef [name] (Ann name))
      else bind_err (names_to_path True m None (split_lookup name))
             (\<lambda>(t, rest). Inr (RRef (split_lookup name) t)))"

text \<open>
  A condition \<^verbatim>\<open>lookup=value\<close>: the leading names are fields, and what is left is
  empty (\<^verbatim>\<open>exact\<close>) or one of the lookups Django registers.
\<close>

definition resolve_q :: "model \<Rightarrow> q \<Rightarrow> error + rq" where
  "resolve_q m c =
     (case c of Q lookup v \<Rightarrow>
        bind_err (names_to_path False m None (split_lookup lookup))
          (\<lambda>(t, rest).
             (case rest of
                [] \<Rightarrow> Inr (RQ (split_lookup lookup) t ''exact'' v)
              | [l] \<Rightarrow>
                  (if l \<in> set builtin_lookups then Inr (RQ (split_lookup lookup) t l v)
                   else Inl FieldError)
              | l # l' # ls \<Rightarrow> Inl FieldError)))"

text \<open>
  \<^verbatim>\<open>resolve_expression\<close>: the operands of an expression left to right; for an
  aggregate its expression, then its filter.
\<close>

fun resolve_expression :: "model \<Rightarrow> string list \<Rightarrow> expr \<Rightarrow> error + rexpr" where
  "resolve_expression m anns (F name) = resolve_ref m anns name"
| "resolve_expression m anns (Mul a b) =
     (case resolve_expression m anns a of
        Inl e \<Rightarrow> Inl e
      | Inr x \<Rightarrow>
          (case resolve_expression m anns b of
             Inl e \<Rightarrow> Inl e
           | Inr y \<Rightarrow> Inr (RMul x y)))"
| "resolve_expression m anns (Add a b) =
     (case resolve_expression m anns a of
        Inl e \<Rightarrow> Inl e
      | Inr x \<Rightarrow>
          (case resolve_expression m anns b of
             Inl e \<Rightarrow> Inl e
           | Inr y \<Rightarrow> Inr (RAdd x y)))"
| "resolve_expression m anns (Sum a flt) =
     (case resolve_expression m anns a of
        Inl e \<Rightarrow> Inl e
      | Inr x \<Rightarrow>
          (case flt of
             None \<Rightarrow> Inr (RSum x None)
           | Some c \<Rightarrow> bind_err (resolve_q m c) (\<lambda>r. Inr (RSum x (Some r)))))"

text \<open>
  A query set under construction: its model, the lookups to prefetch, the resolved
  conditions and the resolved annotations in the order they were added. Django
  resolves the names of \<^verbatim>\<open>filter\<close> and \<^verbatim>\<open>annotate\<close> when they are called;
  \<^verbatim>\<open>prefetch_related\<close> only records its lookups, and the query runs when the query set
  is iterated.
\<close>

record queryset =
  qs_model :: model
  qs_prefetch :: "string list"
  qs_filter :: "rq list"
  qs_annotations :: "(string \<times> rexpr) list"

definition objects :: "model \<Rightarrow> queryset" where
  "objects m = \<lparr>qs_model = m, qs_prefetch = [], qs_filter = [], qs_annotations = []\<rparr>"

definition prefetch_related :: "queryset \<Rightarrow> string list \<Rightarrow> queryset" where
  "prefetch_related qs lookups = qs\<lparr>qs_prefetch := qs_prefetch qs @ lookups\<rparr>"

fun filter_qs :: "queryset \<Rightarrow> (string \<times> pyval) list \<Rightarrow> error + queryset" where
  "filter_qs qs [] = Inr qs"
| "filter_qs qs ((lookup, v) # kwargs) =
     (case resolve_q (qs_model qs) (Q lookup (Val v)) of
        Inl e \<Rightarrow> Inl e
      | Inr r \<Rightarrow> filter_qs (qs\<lparr>qs_filter := qs_filter qs @ [r]\<rparr>) kwargs)"

fun add_annotations :: "queryset \<Rightarrow> (string \<times> expr) list \<Rightarrow> error + queryset" where
  "add_annotations qs [] = Inr qs"
| "add_annotations qs ((alias, e) # kwargs) =
     (case resolve_expression (qs_model qs) (map fst (qs_annotations qs)) e of
        Inl e \<Rightarrow> Inl e
      | Inr r \<Rightarrow> add_annotations (qs\<lparr>qs_annotations := qs_annotations qs @ [(alias, r)]\<rparr>) kwargs)"

text \<open>
  \<^verbatim>\<open>QuerySet.annotate\<close>: an alias that is a field name of the model is refused with
  \<^verbatim>\<open>ValueError\<close> before anything is added; then each annotation is resolved and added,
  in the order written.
\<close>

definition annotate :: "queryset \<Rightarrow> (string \<times> expr) list \<Rightarrow> error + queryset" where
  "annotate qs kwargs =
     (if list_ex (\<lambda>(alias, e). get_field (qs_model qs) alias \<noteq> None) kwargs
      then Inl ValueError
      else add_annotations qs kwargs)"

section \<open>\<^verbatim>\<open>get_parent_sections\<close> and \<^verbatim>\<open>get_buildings\<close>\<close>

text \<open>
  A row that a query returns is an instance with its attributes, the annotations among
  them. Running a resolved query is the work of the database behind Django; both
  functions take it as the parameter \<open>run\<close>, so that what is proved of them holds for
  every database engine.
\<close>

type_synonym py_object = "(string \<times> pyval) list"

type_synonym backend = "db \<Rightarrow> queryset \<Rightarrow> error + py_object list"

definition getattr :: "py_object \<Rightarrow> string \<Rightarrow> error + pyval" where
  "getattr b a = (case map_of b a of None \<Rightarrow> Inl AttributeError | Some v \<Rightarrow> Inr v)"

fun map_err :: "('a \<Rightarrow> error + 'b) \<Rightarrow> 'a list \<Rightarrow> error + 'b list" where
  "map_err f [] = Inr []"
| "map_err f (x # xs) =
     (case f x of
        Inl e \<Rightarrow> Inl e
      | Inr y \<Rightarrow> (case map_err f xs of Inl e \<Rightarrow> Inl e | Inr ys \<Rightarrow> Inr (y # ys)))"

text \<open>The three annotations of \<^verbatim>\<open>get_parent_sections\<close> (lines 53 to 58).\<close>

definition budget_parent :: expr where
  "budget_parent = Sum (Mul (F ''section__price'') (F ''section__count'')) None"

definition budget_child :: expr where
  "budget_child =
     Sum (Mul (F ''section__price'') (F ''section__count''))
       (Some (Q ''parent'' (OuterRef ''pk'')))"

definition budget_all :: expr where
  "budget_all = Add (F ''budget_parent'') (F ''budget_child'')"

text \<open>\<^verbatim>\<open>get_parent_sections\<close> (lines 49 to 60).\<close>

definition get_parent_sections :: "backend \<Rightarrow> db \<Rightarrow> int \<Rightarrow> error + py_object list" where
  "get_parent_sections run d building_id =
     bind_err
       (filter_qs (prefetch_related (objects Section) [''section''])
          [(''building_id'', PyInt building_id), (''parent__isnull'', PyBool True)])
       (\<lambda>filtered.
          bind_err
            (annotate filtered
               [(''budget_parent'', budget_parent),
                (''budget_child'', budget_child),
                (''budget_all'', budget_all)])
            (\<lambda>sections. run d sections))"

text \<open>The constants of \<^verbatim>\<open>Expenditure.Types\<close> (lines 30 to 36).\<close>

definition WORK :: string where
  "WORK = ''work''"

definition MATERIAL :: string where
  "MATERIAL = ''material''"

text \<open>The two annotations of \<^verbatim>\<open>get_buildings\<close> (lines 80 to 87).\<close>

definition works_amount :: expr where
  "works_amount =
     Sum (Mul (F ''building__section__count'') (F ''building__section__price''))
       (Some (Q ''building__section__type'' (Val (PyStr WORK))))"

definition materials_amount :: expr where
  "materials_amount =
     Sum (Mul (F ''building__section__count'') (F ''building__section__price''))
       (Some (Q ''building__section__type'' (Val (PyStr MATERIAL))))"

text \<open>
  \<^verbatim>\<open>get_buildings\<close> (lines 63 to 89): the query set is built, then iterated by the list
  comprehension, which reads three attributes of each instance into a dictionary.
\<close>

definition building_dict :: "py_object \<Rightarrow> error + py_object" where
  "building_dict b =
     bind_err (getattr b ''id'') (\<lambda>i.
     bind_err (getattr b ''works_amount'') (\<lambda>w.
     bind_err (getattr b ''materials_amount'') (\<lambda>m.
     Inr [(''id'', i), (''works_amount'', w), (''materials_amount'', m)])))"

definition get_buildings :: "backend \<Rightarrow> db \<Rightarrow> error + py_object list" where
  "get_buildings run d =
     bind_err
       (annotate (objects Building)
          [(''works_amount'', works_amount), (''materials_amount'', materials_amount)])
       (\<lambda>qs. bind_err (run d qs) (\<lambda>rows. map_err building_dict rows))"

section \<open>Deletion\<close>

text \<open>
  Modelled from the spec: the deletion of a row. The source has no code that deletes;
  it only declares each foreign key with \<^verbatim>\<open>on_delete=models.PROTECT\<close> (lines 16, 17
  and 38). The specification asks of the persistence layer a delete that is rejected
  with an integrity error while a dependent row references the entity, and that is
  never cascaded. The dependents are those of the declared foreign keys: the sections
  of a building; the child sections and the expenditures of a section; none for an
  expenditure, which no model references.
\<close>

definition Building_delete :: "db \<Rightarrow> int \<Rightarrow> (error + unit) \<times> db" where
  "Building_delete d pk =
     (if list_ex (\<lambda>s. s_building_id s = pk) (sections d) then (Inl ProtectedError, d)
      else (Inr (), d\<lparr>buildings := filter (\<lambda>b. b_id b \<noteq> pk) (buildings d)\<rparr>))"

definition Section_delete :: "db \<Rightarrow> int \<Rightarrow> (error + unit) \<times> db" where
  "Section_delete d pk =
     (if list_ex (\<lambda>s. s_parent_id s = Some pk) (sections d) then (Inl ProtectedError, d)
      else if list_ex (\<lambda>e. e_section_id e = pk) (expenditures d) then (Inl ProtectedError, d)
      else (Inr (), d\<lparr>sections := filter (\<lambda>s. s_id s \<noteq> pk) (sections d)\<rparr>))"

definition Expenditure_delete :: "db \<Rightarrow> int \<Rightarrow> (error + unit) \<times> db" where
  "Expenditure_delete d pk =
     (Inr (), d\<lparr>expenditures := filter (\<lambda>e. e_id e \<noteq> pk) (expenditures d)\<rparr>)"

section \<open>Example data\<close>

text \<open>
  The example of the specification for \<^verbatim>\<open>get_parent_sections\<close>: building 1 with the
  root section 1, which has two expenditures (2 at 10.00 and 1 at 5.00), and its child
  section 2 with one expenditure (3 at 4.00).
\<close>

definition example_db :: db where
  "example_db =
     \<lparr>buildings = [\<lparr>b_id = 1, b_name = ''house''\<rparr>],
      sections =
        [\<lparr>s_id = 1, s_building_id = 1, s_parent_id = None\<rparr>,
         \<lparr>s_id = 2, s_building_id = 1, s_parent_id = Some 1\<rparr>],
      expenditures =
        [\<lparr>e_id = 1, e_section_id = 1, e_name = ''walls'', e_type = ''work'',
          e_count = 2, e_price = 10\<rparr>,
         \<lparr>e_id = 2, e_section_id = 1, e_name = ''bricks'', e_type = ''material'',
          e_count = 1, e_price = 5\<rparr>,
         \<lparr>e_id = 3, e_section_id = 2, e_name = ''roof'', e_type = ''work'',
          e_count = 3, e_price = 4\<rparr>]\<rparr>"

text \<open>The same building when only the root section has expenditures.\<close>

definition root_only_db :: db where
  "root_only_db =
     \<lparr>buildings = [\<lparr>b_id = 1, b_name = ''house''\<rparr>],
      sections = [\<lparr>s_id = 1, s_building_id = 1, s_parent_id = None\<rparr>],
      expenditures =
        [\<lparr>e_id = 1, e_section_id = 1, e_name = ''walls'', e_type = ''work'',
          e_count = 2, e_price = 10\<rparr>,
         \<lparr>e_id = 2, e_section_id = 1, e_name = ''bricks'', e_type = ''material'',
          e_count = 1, e_price = 5\<rparr>]\<rparr>"

text \<open>
  The example of the specification for \<^verbatim>\<open>get_buildings\<close>: building 1 with one work
  expenditure (2 at 50.00) and one material expenditure (1 at 30.00), and building 2
  with no expenditure.
\<close>

definition buildings_db :: db where
  "buildings_db =
     \<lparr>buildings = [\<lparr>b_id = 1, b_name = ''house''\<rparr>, \<lparr>b_id = 2, b_name = ''barn''\<rparr>],
      sections =
        [\<lparr>s_id = 1, s_building_id = 1, s_parent_id = None\<rparr>,
         \<lparr>s_id = 2, s_building_id = 1, s_parent_id = Some 1\<rparr>],
      expenditures =
        [\<lparr>e_id = 1, e_section_id = 2, e_name = ''walls'', e_type = ''work'',
          e_count = 2, e_price = 50\<rparr>,
         \<lparr>e_id = 2, e_section_id = 2, e_name = ''bricks'', e_type = ''material'',
          e_count = 1, e_price = 30\<rparr>]\<rparr>"

section \<open>What the code does\<close>

subsection \<open>Auxiliary facts\<close>

lemma discount_below_zero_or_above_hundred:
  "dec_lt discount (Finite 0) = Inr True \<or> dec_gt discount (Finite 100) = Inr True \<Longrightarrow>
   discount_out_of_range discount = Inr True"
  by (cases discount) (auto simp: discount_out_of_range_def bind_err_def dec_gt_def)

lemma discount_within_range:
  "0 \<le> q \<Longrightarrow> q \<le> 100 \<Longrightarrow> discount_out_of_range (Finite q) = Inr False"
  by (simp add: discount_out_of_range_def bind_err_def dec_gt_def)

lemma refused_before_lookup:
  "discount_out_of_range discount = Inr True \<Longrightarrow>
   update_with_discount d section_id discount = (Inl TypeError, d)"
  by (simp add: update_with_discount_def raise_ValidationError_def)

lemma out_of_range_type_error:
  "dec_lt discount (Finite 0) = Inr True \<or> dec_gt discount (Finite 100) = Inr True \<Longrightarrow>
   update_with_discount d section_id discount = (Inl TypeError, d)"
  by (rule refused_before_lookup) (rule discount_below_zero_or_above_hundred)

lemma loaded_section_has_no_price:
  "Section_getattr (Section_of_row r) ''price'' = Inl AttributeError"
  by (simp add: Section_getattr_def Section_of_row_def)

lemma discounted_loaded_section:
  "discounted (Section_of_row r) discount = Inl AttributeError"
  by (simp add: discounted_def bind_err_def loaded_section_has_no_price)

lemma update_with_discount_existing_section:
  "find (\<lambda>r. s_id r = section_id) (sections d) = Some r \<Longrightarrow> 0 \<le> q \<Longrightarrow> q \<le> 100 \<Longrightarrow>
   update_with_discount d section_id (Finite q) = (Inl AttributeError, d)"
  by (simp add: update_with_discount_def discount_within_range Section_objects_get_def
      bind_err_def discounted_loaded_section)

lemma get_missing_section:
  "section_id \<notin> s_id ` set (sections d) \<Longrightarrow> Section_objects_get d section_id = Inl DoesNotExist"
proof -
  assume "section_id \<notin> s_id ` set (sections d)"
  then have "find (\<lambda>r. s_id r = section_id) (sections d) = None"
    by (auto simp: find_None_iff)
  then show ?thesis by (simp add: Section_objects_get_def)
qed

lemma split_section_price: "split_lookup ''section__price'' = [''section'', ''price'']"
  by (simp add: split_lookup_def)

lemma section_price_unresolved:
  "resolve_ref Section [] ''section__price'' = Inl FieldError"
  by (simp add: resolve_ref_def split_lookup_def get_field_def reverse_field_def
      points_to_def all_models_def bind_err_def)

lemma roots_filter_resolves:
  "\<exists>qs. filter_qs (prefetch_related (objects Section) [''section''])
          [(''building_id'', PyInt b), (''parent__isnull'', PyBool True)] = Inr qs \<and> qs_model qs = Section \<and> qs_annotations qs = []"
  by (simp add: prefetch_related_def objects_def resolve_q_def split_lookup_def get_field_def
      reverse_field_def points_to_def all_models_def bind_err_def builtin_lookups_def)

lemma get_parent_sections_field_error: "get_parent_sections run d b = Inl FieldError"
proof -
  obtain qs where q: "filter_qs (prefetch_related (objects Section) [''section''])
          [(''building_id'', PyInt b), (''parent__isnull'', PyBool True)] = Inr qs"
     "qs_model qs = Section" "qs_annotations qs = []"
    using roots_filter_resolves by blast
  have ann: "annotate qs [(''budget_parent'', budget_parent), (''budget_child'', budget_child),
                (''budget_all'', budget_all)] = Inl FieldError"
    by (simp add: annotate_def q budget_parent_def section_price_unresolved get_field_def
      reverse_field_def points_to_def all_models_def)
  show ?thesis
    unfolding get_parent_sections_def q(1) by (simp add: bind_err_def ann)
qed

lemma get_buildings_field_error: "get_buildings run d = Inl FieldError"
  by (simp add: get_buildings_def annotate_def objects_def works_amount_def materials_amount_def
      resolve_ref_def split_lookup_def get_field_def reverse_field_def points_to_def
      all_models_def bind_err_def)


lemma Model_save_new:
  "obj_id self = None \<Longrightarrow>
   Model_save d self =
     (Inr (self\<lparr>obj_id := Some (fresh_id (map s_id (sections d)))\<rparr>),
      d\<lparr>sections := sections d @ [row_of_Section (fresh_id (map s_id (sections d))) self]\<rparr>)"
  by (simp add: Model_save_def Let_def)

lemma budget_child_unresolved:
  "resolve_expression Section anns budget_child = Inl FieldError \<or> ''section__price'' \<in> set anns"
  by (simp add: budget_child_def resolve_ref_def split_lookup_def get_field_def
      reverse_field_def points_to_def all_models_def bind_err_def)

subsection \<open>Claims about \<^verbatim>\<open>update_with_discount\<close>\<close>

text \<open>
  Claim C1 says that for an existing section and a discount \<open>d\<close> from 0 to 100 the call
  sets the stored price \<open>p\<close> to \<open>p - p / 100 * d\<close>. The code does not: the instance it
  loads is a \<^verbatim>\<open>Section\<close>, which has no attribute \<^verbatim>\<open>price\<close> (the field is declared on
  \<^verbatim>\<open>Expenditure\<close>), so the read of line 100 raises \<^verbatim>\<open>AttributeError\<close> and nothing is
  stored. The theorem evaluates the call on the section 1 of the example for the three
  discounts the claim names, 10, 0 and 100.
\<close>

theorem update_with_discount_attribute_error:
  "update_with_discount example_db 1 (Finite 10) = (Inl AttributeError, example_db) \<and>
   update_with_discount example_db 1 (Finite 0) = (Inl AttributeError, example_db) \<and>
   update_with_discount example_db 1 (Finite 100) = (Inl AttributeError, example_db)"
proof -
  have "find (\<lambda>r. s_id r = 1) (sections example_db) =
          Some \<lparr>s_id = 1, s_building_id = 1, s_parent_id = None\<rparr>"
    by (simp add: example_db_def)
  then show ?thesis
    by (simp add: update_with_discount_existing_section)
qed

text \<open>
  Claim C7 says that for a discount below 0 or above 100 the call fails with a
  validation error and no stored price changes. The database is indeed unchanged, but
  the error is not a validation error: line 97 raises the class bare, the constructor
  lacks its \<^verbatim>\<open>message\<close>, and the call ends in \<^verbatim>\<open>TypeError\<close>. The theorem evaluates the
  call at the two discounts the claim names, 150 and -1.
\<close>

theorem update_with_discount_out_of_range_type_error:
  "update_with_discount example_db 1 (Finite 150) = (Inl TypeError, example_db) \<and>
   update_with_discount example_db 1 (Finite (- 1)) = (Inl TypeError, example_db)"
  by (simp add: out_of_range_type_error dec_gt_def)

text \<open>
  Claim C8: for a discount from 0 to 100 and an identifier that no section has, the call
  fails with the not-found error of \<^verbatim>\<open>Section.objects.get\<close>, and the database is
  unchanged.
\<close>

theorem update_with_discount_not_found:
  "0 \<le> q \<Longrightarrow> q \<le> 100 \<Longrightarrow> section_id \<notin> s_id ` set (sections d) \<Longrightarrow>
   update_with_discount d section_id (Finite q) = (Inl DoesNotExist, d)"
  by (simp add: update_with_discount_def discount_within_range get_missing_section
      bind_err_def)

theorem update_with_discount_not_found_witness:
  "update_with_discount example_db 7 (Finite 10) = (Inl DoesNotExist, example_db)"
  using update_with_discount_not_found [of 10 7 example_db]
  by (simp add: example_db_def)

text \<open>
  Claim C10 says that for a discount out of range the validation error takes
  precedence over the not-found error. The test of line 96 does precede the lookup of
  line 99, and the outcome is the same whether the identifier names a section (1) or
  not (7); but that outcome is the \<^verbatim>\<open>TypeError\<close> of the bare \<^verbatim>\<open>raise\<close> of line 97, not a
  validation error.
\<close>

theorem out_of_range_precedes_lookup_type_error:
  "update_with_discount example_db 7 (Finite 150) = (Inl TypeError, example_db) \<and>
   Section_objects_get example_db 7 = Inl DoesNotExist \<and>
   update_with_discount example_db 1 (Finite 150) =
     update_with_discount example_db 7 (Finite 150)"
  by (simp add: out_of_range_type_error dec_gt_def Section_objects_get_def example_db_def)

subsection \<open>Claims about the two queries\<close>

text \<open>
  Claim C2 says that \<^verbatim>\<open>budget_parent\<close> of each root section returned is the sum of
  count times price over the expenditures of that section. The code returns nothing:
  on \<^verbatim>\<open>Section\<close> the name \<^verbatim>\<open>section\<close> is the reverse of \<^verbatim>\<open>Section.parent\<close> and leads to
  \<^verbatim>\<open>Section\<close> again, which has no field \<^verbatim>\<open>price\<close> (the expenditures are under
  \<^verbatim>\<open>expenditure\<close>), so \<^verbatim>\<open>annotate\<close> raises \<^verbatim>\<open>FieldError\<close> on the first annotation, for
  every building and every database, before any query runs.
\<close>

theorem budget_parent_field_error:
  "resolve_expression Section [] budget_parent = Inl FieldError \<and>
   get_parent_sections run d building_id = Inl FieldError"
  by (simp add: get_parent_sections_field_error budget_parent_def section_price_unresolved)

text \<open>
  Claim C3 says that \<^verbatim>\<open>budget_child\<close> is the sum over the expenditures of the sections
  whose parent is the root. Its expression names \<^verbatim>\<open>section__price\<close> as well and cannot
  be resolved either, whatever was annotated before it; on the example of the
  specification, where the claim expects 12.00 for the root section, the call raises
  \<^verbatim>\<open>FieldError\<close>.
\<close>

theorem budget_child_field_error:
  "resolve_expression Section [''budget_parent''] budget_child = Inl FieldError \<and>
   get_parent_sections run example_db 1 = Inl FieldError"
  using budget_child_unresolved [of "[''budget_parent'']"]
  by (simp add: get_parent_sections_field_error)

text \<open>
  Claim C4 says that \<^verbatim>\<open>budget_all\<close> is the sum of the two budgets with an absent one
  counted as zero. For a root section with expenditures of its own and no child
  section the claim expects 25.00; the call raises \<^verbatim>\<open>FieldError\<close> and gives no
  \<^verbatim>\<open>budget_all\<close> at all.
\<close>

theorem budget_all_field_error:
  "get_parent_sections run root_only_db 1 = Inl FieldError"
  by (rule get_parent_sections_field_error)

text \<open>
  Claim C5 says that \<^verbatim>\<open>get_buildings\<close> returns one record per building with the two
  amounts, zero where nothing matches. The code returns nothing: \<^verbatim>\<open>Building\<close> has the
  fields \<^verbatim>\<open>id\<close> and \<^verbatim>\<open>name\<close> and the reverse relation \<^verbatim>\<open>section\<close>, and no field
  \<^verbatim>\<open>building\<close>, so \<^verbatim>\<open>building__section__count\<close> cannot be resolved and \<^verbatim>\<open>annotate\<close>
  raises \<^verbatim>\<open>FieldError\<close> for every database, the example of the specification included.
\<close>

theorem get_buildings_raises:
  "get_buildings run d = Inl FieldError \<and> get_buildings run buildings_db = Inl FieldError"
  by (simp add: get_buildings_field_error)

subsection \<open>Claims about the entity model\<close>

text \<open>
  Claim C6: saving a new section (one without an id) whose parent has a parent itself
  fails with a validation error and leaves the database as it was, so that no row is
  persisted; saving a new section whose parent is \<^verbatim>\<open>None\<close>, or whose parent has no
  parent, succeeds: the instance receives a fresh id and its row is added.
\<close>

theorem Section_save_depth_check:
  "obj_id self = None \<Longrightarrow>
   (Section_parent d self = Inr (Some p) \<and> Section_parent d p = Inr (Some g) \<longrightarrow>
      Section_save d self = (Inl ValidationError, d)) \<and>
   (Section_parent d self = Inr None \<or>
    Section_parent d self = Inr (Some p) \<and> Section_parent d p = Inr None \<longrightarrow>
      Section_save d self =
        (Inr (self\<lparr>obj_id := Some (fresh_id (map s_id (sections d)))\<rparr>),
         d\<lparr>sections :=
             sections d @ [row_of_Section (fresh_id (map s_id (sections d))) self]\<rparr>))"
  by (auto simp: Section_save_def truthy_id_def Model_save_new)

theorem Section_save_depth_check_witness:
  "Section_save example_db
     \<lparr>obj_id = None, obj_building_id = 1, obj_parent_id = Some 2, obj_dict = []\<rparr> =
     (Inl ValidationError, example_db) \<and>
   sections (snd (Section_save example_db
     \<lparr>obj_id = None, obj_building_id = 1, obj_parent_id = Some 1, obj_dict = []\<rparr>)) =
     sections example_db @ [\<lparr>s_id = 3, s_building_id = 1, s_parent_id = Some 1\<rparr>] \<and>
   sections (snd (Section_save example_db
     \<lparr>obj_id = None, obj_building_id = 1, obj_parent_id = None, obj_dict = []\<rparr>)) =
     sections example_db @ [\<lparr>s_id = 3, s_building_id = 1, s_parent_id = None\<rparr>]"
  using
    Section_save_depth_check
      [of "\<lparr>obj_id = None, obj_building_id = 1, obj_parent_id = Some 2, obj_dict = []\<rparr>"
          example_db
          "Section_of_row \<lparr>s_id = 2, s_building_id = 1, s_parent_id = Some 1\<rparr>"
          "Section_of_row \<lparr>s_id = 1, s_building_id = 1, s_parent_id = None\<rparr>"]
    Section_save_depth_check
      [of "\<lparr>obj_id = None, obj_building_id = 1, obj_parent_id = Some 1, obj_dict = []\<rparr>"
          example_db
          "Section_of_row \<lparr>s_id = 1, s_building_id = 1, s_parent_id = None\<rparr>"]
    Section_save_depth_check
      [of "\<lparr>obj_id = None, obj_building_id = 1, obj_parent_id = None, obj_dict = []\<rparr>"
          example_db]
  by (simp add: Section_parent_def Section_objects_get_def Section_of_row_def bind_err_def
      example_db_def fresh_id_def row_of_Section_def)

text \<open>
  Claim C9: deleting a building that a section references, or a section that a child
  section or an expenditure references, fails with the integrity error and leaves the
  database as it was: the row is still present and nothing is cascaded. No model
  references \<^verbatim>\<open>Expenditure\<close>, so an expenditure never has a dependent row.
\<close>

theorem delete_protected:
  "((\<exists>s \<in> set (sections d). s_building_id s = b) \<longrightarrow>
      Building_delete d b = (Inl ProtectedError, d)) \<and>
   ((\<exists>s \<in> set (sections d). s_parent_id s = Some k) \<or>
    (\<exists>e \<in> set (expenditures d). e_section_id e = k) \<longrightarrow>
      Section_delete d k = (Inl ProtectedError, d))"
  by (auto simp: Building_delete_def Section_delete_def list_ex_iff)

theorem delete_protected_witness:
  "Building_delete example_db 1 = (Inl ProtectedError, example_db) \<and>
   Section_delete example_db 1 = (Inl ProtectedError, example_db) \<and>
   Section_delete example_db 2 = (Inl ProtectedError, example_db)"
  using delete_protected [of example_db 1 1] delete_protected [of example_db 1 2]
  by (simp add: example_db_def)

end
